theory Spec2Isabelle
  imports Main "HOL-Library.Word" "HOL-Library.Signed_Division"
begin

unbundle bit_operations_syntax

section \<open>The WAV header record\<close>

text \<open>
  The target is a 32-bit little-endian microcontroller: \<^verbatim>\<open>int\<close> and \<^verbatim>\<open>size_t\<close> are 32 bits
  wide, \<^verbatim>\<open>short\<close> is 16 bits wide. Arithmetic on them is arithmetic on words, which wraps.
\<close>

type_synonym byte = "8 word"
type_synonym int32 = "32 word"
type_synonym int16 = "16 word"

text \<open>A \<^verbatim>\<open>char[4]\<close> member: exactly four bytes.\<close>

datatype char4 = Char4 byte byte byte byte

fun char4_bytes :: "char4 \<Rightarrow> byte list" where
  "char4_bytes (Char4 a b c d) = [a, b, c, d]"

text \<open>\<^verbatim>\<open>memcpy(dst, "....", 4)\<close> from a string literal of four characters.\<close>

definition memcpy4 :: "string \<Rightarrow> char4" where
  "memcpy4 s = Char4 (of_char (s ! 0)) (of_char (s ! 1)) (of_char (s ! 2)) (of_char (s ! 3))"

record WavHeader =
  riff_header :: char4
  wav_size :: int32
  wave_header :: char4
  fmt_header :: char4
  fmt_chunk_size :: int32
  audio_format :: int16
  num_channels :: int16
  sample_rate :: int32
  byte_rate :: int32
  sample_alignment :: int16
  bit_depth :: int16
  data_header :: char4
  data_bytes :: int32

text \<open>
  \<^verbatim>\<open>sizeof(WavHeader)\<close>: every member sits at a naturally aligned offset, so the struct has
  no padding and occupies 4+4+4+4+4+2+2+4+4+2+2+4+4 bytes.
\<close>

definition sizeof_WavHeader :: nat where
  "sizeof_WavHeader = 44"

definition le16 :: "int16 \<Rightarrow> byte list" where
  "le16 w = [ucast w, ucast (drop_bit 8 w)]"

definition le32 :: "int32 \<Rightarrow> byte list" where
  "le32 w = [ucast w, ucast (drop_bit 8 w), ucast (drop_bit 16 w), ucast (drop_bit 24 w)]"

text \<open>The object representation that \<^verbatim>\<open>fwrite(&header, 1, sizeof(WavHeader), file)\<close> copies out.\<close>

definition header_bytes :: "WavHeader \<Rightarrow> byte list" where
  "header_bytes h =
     char4_bytes (riff_header h) @ le32 (wav_size h) @ char4_bytes (wave_header h) @
     char4_bytes (fmt_header h) @ le32 (fmt_chunk_size h) @ le16 (audio_format h) @
     le16 (num_channels h) @ le32 (sample_rate h) @ le32 (byte_rate h) @
     le16 (sample_alignment h) @ le16 (bit_depth h) @
     char4_bytes (data_header h) @ le32 (data_bytes h)"

definition rd_char4 :: "byte list \<Rightarrow> nat \<Rightarrow> char4" where
  "rd_char4 bs i = Char4 (bs ! i) (bs ! (i + 1)) (bs ! (i + 2)) (bs ! (i + 3))"

definition rd_le16 :: "byte list \<Rightarrow> nat \<Rightarrow> int16" where
  "rd_le16 bs i = ucast (bs ! i) OR push_bit 8 (ucast (bs ! (i + 1)))"

definition rd_le32 :: "byte list \<Rightarrow> nat \<Rightarrow> int32" where
  "rd_le32 bs i =
     ucast (bs ! i) OR push_bit 8 (ucast (bs ! (i + 1))) OR
     push_bit 16 (ucast (bs ! (i + 2))) OR push_bit 24 (ucast (bs ! (i + 3)))"

text \<open>The struct value held by 44 bytes of memory (used where \<^verbatim>\<open>fread\<close> fills the struct).\<close>

definition header_of_bytes :: "byte list \<Rightarrow> WavHeader" where
  "header_of_bytes bs =
     \<lparr>riff_header = rd_char4 bs 0, wav_size = rd_le32 bs 4, wave_header = rd_char4 bs 8,
      fmt_header = rd_char4 bs 12, fmt_chunk_size = rd_le32 bs 16, audio_format = rd_le16 bs 20,
      num_channels = rd_le16 bs 22, sample_rate = rd_le32 bs 24, byte_rate = rd_le32 bs 28,
      sample_alignment = rd_le16 bs 32, bit_depth = rd_le16 bs 34,
      data_header = rd_char4 bs 36, data_bytes = rd_le32 bs 40\<rparr>"

section \<open>The C stream library, as far as the recorder uses it\<close>

text \<open>
  A \<^verbatim>\<open>FILE\<close> names the file it is attached to, its position, whether it was opened for
  reading, and whether it is still open. The files themselves live on the \<open>disk\<close>, a map
  from paths to contents. Writes are not buffered in the model. The library keeps the
  streams that are open in a table, here the list of their paths: \<^verbatim>\<open>fopen\<close> enters a
  stream and \<^verbatim>\<open>fclose\<close> removes it.
\<close>

record FILE =
  f_path :: string
  f_pos :: nat
  f_readable :: bool
  f_open :: bool

type_synonym disk = "string \<rightharpoonup> byte list"

type_synonym stream_table = "string list"

definition EOF :: int where
  "EOF = - 1"

definition file_content :: "disk \<Rightarrow> string \<Rightarrow> byte list" where
  "file_content d p = (case d p of None \<Rightarrow> [] | Some c \<Rightarrow> c)"

text \<open>
  \<^verbatim>\<open>fopen(path, "wb")\<close>: fails (null pointer) where the path cannot be opened; otherwise
  creates or truncates the file and yields a write-only stream at position 0.
\<close>

definition fopen_wb ::
  "string set \<Rightarrow> string \<Rightarrow> disk \<Rightarrow> stream_table \<Rightarrow> FILE option \<times> disk \<times> stream_table" where
  "fopen_wb bad path d streams =
     (if path \<in> bad then (None, d, streams)
      else (Some \<lparr>f_path = path, f_pos = 0, f_readable = False, f_open = True\<rparr>,
            d(path \<mapsto> []), streams @ [path]))"

definition write_at :: "byte list \<Rightarrow> nat \<Rightarrow> byte list \<Rightarrow> byte list" where
  "write_at content pos data =
     take pos (content @ replicate (pos - length content) 0) @ data @
     drop (pos + length data) content"

text \<open>
  \<^verbatim>\<open>fwrite(data, 1, n, file)\<close>. The sink accepts at most \<open>accepted\<close> bytes of this call (a full
  card or an I/O error gives a short count); the accepted prefix is stored at the position
  and the position advances. The count is returned; every caller in the recorder drops it.
\<close>

definition fwrite :: "byte list \<Rightarrow> nat \<Rightarrow> FILE \<Rightarrow> disk \<Rightarrow> nat \<times> FILE \<times> disk" where
  "fwrite data accepted f d =
     (let w = take accepted data
      in (length w, f\<lparr>f_pos := f_pos f + length w\<rparr>,
          d(f_path f \<mapsto> write_at (file_content d (f_path f)) (f_pos f) w)))"

text \<open>
  \<^verbatim>\<open>fseek(file, 0, SEEK_SET)\<close>. The call flushes the stream to the device before it moves
  the position. On a device that takes nothing in this step (\<open>accepted\<close> is 0) the flush
  fails: the call returns \<open>-1\<close> and the position stays where it was. Otherwise it returns 0
  and the position is 0. \<^verbatim>\<open>update_wav_header\<close> drops the result.
\<close>

definition fseek_set0 :: "nat \<Rightarrow> FILE \<Rightarrow> int \<times> FILE" where
  "fseek_set0 accepted f = (if accepted = 0 then (- 1, f) else (0, f\<lparr>f_pos := 0\<rparr>))"

text \<open>
  \<^verbatim>\<open>fread(&header, 1, sizeof(WavHeader), file)\<close>. On a stream that was not opened for reading
  the call fails with \<^verbatim>\<open>EBADF\<close>, transfers nothing and leaves the struct as it was. On a
  readable stream the bytes available from the position overwrite the front of the struct.
\<close>

definition fread_header :: "WavHeader \<Rightarrow> FILE \<Rightarrow> disk \<Rightarrow> nat \<times> WavHeader \<times> FILE" where
  "fread_header buf f d =
     (if f_readable f then
        (let got = take sizeof_WavHeader (drop (f_pos f) (file_content d (f_path f)))
         in (length got,
             header_of_bytes (got @ drop (length got) (header_bytes buf)),
             f\<lparr>f_pos := f_pos f + length got\<rparr>))
      else (0, buf, f))"

text \<open>
  \<^verbatim>\<open>fclose(file)\<close>. The stream is closed and leaves the table of open streams whatever
  happens; on a device that takes nothing in this step the final flush fails and the call
  returns \<^verbatim>\<open>EOF\<close>, otherwise 0. Both callers in the recorder drop the result.
\<close>

definition fclose :: "nat \<Rightarrow> FILE \<Rightarrow> stream_table \<Rightarrow> int \<times> FILE \<times> stream_table" where
  "fclose accepted f streams =
     (if accepted = 0 then EOF else 0, f\<lparr>f_open := False\<rparr>, remove1 (f_path f) streams)"

section \<open>The recorder object and its surroundings\<close>

text \<open>
  \<^verbatim>\<open>i2s_bits_per_sample_t\<close> and \<^verbatim>\<open>esp_err_t\<close> come from the vendor SDK headers
  (\<^verbatim>\<open>driver/i2s.h\<close>); the enumerators carry the bit width as their value.
\<close>

datatype i2s_bits_per_sample_t =
    I2S_BITS_PER_SAMPLE_8BIT
  | I2S_BITS_PER_SAMPLE_16BIT
  | I2S_BITS_PER_SAMPLE_24BIT
  | I2S_BITS_PER_SAMPLE_32BIT

fun bits_value :: "i2s_bits_per_sample_t \<Rightarrow> int32" where
  "bits_value I2S_BITS_PER_SAMPLE_8BIT = 8"
| "bits_value I2S_BITS_PER_SAMPLE_16BIT = 16"
| "bits_value I2S_BITS_PER_SAMPLE_24BIT = 24"
| "bits_value I2S_BITS_PER_SAMPLE_32BIT = 32"

datatype esp_err_t = ESP_OK | ESP_FAIL | ESP_ERR_TIMEOUT

datatype log_level = LOGE | LOGW | LOGI

text \<open>
  The program counter of one background task running \<^verbatim>\<open>recording_task_function\<close>:
  created and not yet run, inside the \<^verbatim>\<open>while\<close> loop, deleted by \<^verbatim>\<open>vTaskDelete\<close>, or
  stopped by a fault (a null or closed \<^verbatim>\<open>FILE*\<close> handed to the stream library).
\<close>

datatype task_pc = Entry | Looping | Deleted | Faulted

text \<open>
  The members of \<^verbatim>\<open>ESP32AudioRecorder\<close> (the I2S port and pin configuration play no part in
  what follows and are left out), together with what the object lives in: the disk, the
  set of paths that cannot be opened for writing, the stream library's table of open
  streams, the tasks created so far, and the log.
\<close>

record system =
  m_sample_rate :: int32
  m_bits_per_sample :: i2s_bits_per_sample_t
  m_filepath :: string
  m_file_handle :: "FILE option"
  m_recording_task_handle :: "nat option"
  m_is_recording :: bool
  m_data_bytes_written :: int32
  disk :: disk
  unopenable :: "string set"
  open_streams :: stream_table
  tasks :: "task_pc list"
  esp_log :: "(log_level \<times> string) list"

text \<open>
  What the surroundings answer to one step of a background task: whether \<^verbatim>\<open>malloc\<close>
  succeeds, the status and the bytes \<^verbatim>\<open>i2s_read\<close> has on offer, how many bytes the sink
  accepts from the step's \<^verbatim>\<open>fwrite\<close>, and the indeterminate contents of the uninitialised
  local \<^verbatim>\<open>WavHeader header\<close> of \<^verbatim>\<open>update_wav_header\<close>.
\<close>

record task_env =
  malloc_ok :: bool
  i2s_result :: esp_err_t
  i2s_data :: "byte list"
  fwrite_accepts :: nat
  stack_header :: WavHeader

definition ESP_LOG :: "log_level \<Rightarrow> string \<Rightarrow> system \<Rightarrow> system" where
  "ESP_LOG lvl msg s = s\<lparr>esp_log := esp_log s @ [(lvl, msg)]\<rparr>"

text \<open>The constructor's member initialisers.\<close>

definition ESP32AudioRecorder :: "disk \<Rightarrow> string set \<Rightarrow> system" where
  "ESP32AudioRecorder d bad =
     \<lparr>m_sample_rate = 0, m_bits_per_sample = I2S_BITS_PER_SAMPLE_16BIT, m_filepath = [],
      m_file_handle = None, m_recording_task_handle = None, m_is_recording = False,
      m_data_bytes_written = 0, disk = d, unopenable = bad, open_streams = [], tasks = [],
      esp_log = []\<rparr>"

definition InstallDriver ::
  "int32 \<Rightarrow> i2s_bits_per_sample_t \<Rightarrow> esp_err_t \<Rightarrow> esp_err_t \<Rightarrow> system \<Rightarrow> bool \<times> system" where
  "InstallDriver rate bits install_err pin_err s =
     (let s1 = s\<lparr>m_sample_rate := rate, m_bits_per_sample := bits\<rparr>
      in if install_err \<noteq> ESP_OK then (False, ESP_LOG LOGE ''I2S driver install failed'' s1)
         else if pin_err \<noteq> ESP_OK then (False, ESP_LOG LOGE ''I2S set pin failed'' s1)
         else (True, ESP_LOG LOGI ''I2S driver installed successfully'' s1))"

definition IsRecording :: "system \<Rightarrow> bool" where
  "IsRecording s = m_is_recording s"

section \<open>Header writing\<close>

text \<open>
  The struct that \<^verbatim>\<open>write_wav_header\<close> fills in. \<^verbatim>\<open>bit_depth / 8\<close> is a division of a promoted
  \<^verbatim>\<open>short\<close>, truncating towards zero; the products are taken in \<^verbatim>\<open>int\<close>.
\<close>

definition bytes_per_sample :: "int16 \<Rightarrow> int32" where
  "bytes_per_sample bd = word_of_int (sint bd sdiv 8)"

definition placeholder_header :: "int32 \<Rightarrow> i2s_bits_per_sample_t \<Rightarrow> WavHeader" where
  "placeholder_header rate bits =
     (let nch = (1 :: int16);
          bd = (ucast (bits_value bits) :: int16)
      in \<lparr>riff_header = memcpy4 ''RIFF'', wav_size = 0, wave_header = memcpy4 ''WAVE'',
          fmt_header = memcpy4 ''fmt '', fmt_chunk_size = 16, audio_format = 1,
          num_channels = nch, sample_rate = rate,
          byte_rate = rate * scast nch * bytes_per_sample bd,
          sample_alignment = ucast (scast nch * bytes_per_sample bd),
          bit_depth = bd, data_header = memcpy4 ''data'', data_bytes = 0\<rparr>)"

definition write_wav_header :: "nat \<Rightarrow> FILE \<Rightarrow> system \<Rightarrow> system" where
  "write_wav_header accepted file s =
     (let header = placeholder_header (m_sample_rate s) (m_bits_per_sample s);
          (n, file', d') = fwrite (header_bytes header) accepted file (disk s)
      in s\<lparr>m_file_handle := Some file', disk := d'\<rparr>)"

text \<open>
  \<^verbatim>\<open>update_wav_header\<close>: seek to the start, \<^verbatim>\<open>fread\<close> the header into a fresh local struct
  (whose contents before the call are \<open>uninit\<close>), set the two sizes, seek to the start
  again and write the struct. \<^verbatim>\<open>total_data_bytes + sizeof(WavHeader) - 8\<close> is computed in
  \<^verbatim>\<open>size_t\<close> and converted back to \<^verbatim>\<open>int\<close>.
\<close>

definition update_wav_header :: "WavHeader \<Rightarrow> nat \<Rightarrow> FILE \<Rightarrow> int32 \<Rightarrow> system \<Rightarrow> system" where
  "update_wav_header uninit accepted file total_data_bytes s =
     (let (r1, f1) = fseek_set0 accepted file;
          (got, header, f2) = fread_header uninit f1 (disk s);
          header' = header\<lparr>data_bytes := total_data_bytes,
                            wav_size := total_data_bytes + of_nat sizeof_WavHeader - 8\<rparr>;
          (r2, f3) = fseek_set0 accepted f2;
          (n, f4, d') = fwrite (header_bytes header') accepted f3 (disk s)
      in s\<lparr>m_file_handle := Some f4, disk := d'\<rparr>)"

section \<open>The background task\<close>

definition buffer_size :: nat where
  "buffer_size = 1024"

text \<open>
  \<^verbatim>\<open>i2s_read(port, buffer, size, &bytes_read, ticks)\<close>: the status, and at most \<open>sz\<close> of the
  bytes on offer; \<^verbatim>\<open>bytes_read\<close> is the length of what was delivered.
\<close>

definition i2s_read :: "nat \<Rightarrow> task_env \<Rightarrow> esp_err_t \<times> byte list" where
  "i2s_read sz e = (i2s_result e, take sz (i2s_data e))"

definition live_handle :: "system \<Rightarrow> FILE option" where
  "live_handle s =
     (case m_file_handle s of None \<Rightarrow> None
      | Some f \<Rightarrow> if f_open f then Some f else None)"

text \<open>
  The statement \<^verbatim>\<open>fclose(recorder->m_file_handle);\<close>: the stream behind the handle is closed
  and the result of the call is dropped. The handle itself keeps pointing at the stream.
\<close>

definition fclose_handle :: "nat \<Rightarrow> system \<Rightarrow> system" where
  "fclose_handle accepted s =
     (case m_file_handle s of
        None \<Rightarrow> s
      | Some f \<Rightarrow>
          (let (r, f', streams') = fclose accepted f (open_streams s)
           in s\<lparr>m_file_handle := Some f', open_streams := streams'\<rparr>))"

text \<open>From the task's entry to the head of the loop.\<close>

definition task_entry :: "task_env \<Rightarrow> system \<Rightarrow> task_pc \<times> system" where
  "task_entry e s =
     (let (fh, d', streams') =
            fopen_wb (unopenable s) (m_filepath s) (disk s) (open_streams s);
          s1 = s\<lparr>m_file_handle := fh, disk := d', open_streams := streams'\<rparr>
      in case fh of
           None \<Rightarrow>
             (Deleted, (ESP_LOG LOGE ''Failed to open file for writing: %s'' s1)
                         \<lparr>m_is_recording := False\<rparr>)
         | Some file \<Rightarrow>
             (let s2 = write_wav_header (fwrite_accepts e) file s1
              in if \<not> malloc_ok e then
                   (Deleted, (fclose_handle (fwrite_accepts e)
                                (ESP_LOG LOGE ''Failed to allocate memory for buffer'' s2))
                               \<lparr>m_is_recording := False\<rparr>)
                 else (Looping, s2\<lparr>m_data_bytes_written := 0\<rparr>)))"

text \<open>One pass of the \<^verbatim>\<open>while (recorder->m_is_recording)\<close> body.\<close>

definition task_iteration :: "task_env \<Rightarrow> system \<Rightarrow> task_pc \<times> system" where
  "task_iteration e s =
     (let (result, data) = i2s_read buffer_size e
      in if result = ESP_OK \<and> length data > 0 then
           (case live_handle s of
              None \<Rightarrow> (Faulted, s)
            | Some file \<Rightarrow>
                (let (n, file', d') = fwrite data (fwrite_accepts e) file (disk s)
                 in (Looping,
                     s\<lparr>m_file_handle := Some file', disk := d',
                       m_data_bytes_written := m_data_bytes_written s + of_nat (length data)\<rparr>)))
         else (Looping, ESP_LOG LOGW ''I2S read error or timeout'' s))"

text \<open>After the loop: rewrite the header, close the file, clear the handles, delete the task.\<close>

definition task_finish :: "task_env \<Rightarrow> system \<Rightarrow> task_pc \<times> system" where
  "task_finish e s =
     (case live_handle s of
        None \<Rightarrow> (Faulted, s)
      | Some file \<Rightarrow>
          (let s1 = update_wav_header (stack_header e) (fwrite_accepts e) file
                      (m_data_bytes_written s) s;
               s2 = fclose_handle (fwrite_accepts e) s1;
               s3 = s2\<lparr>m_file_handle := None\<rparr>;
               s4 = ESP_LOG LOGI ''File saved. Task is finishing.'' s3
           in (Deleted, s4\<lparr>m_recording_task_handle := None\<rparr>)))"

text \<open>
  One scheduling step of \<^verbatim>\<open>recording_task_function\<close>: from the entry to the loop head, or
  one test of the flag followed by the loop body or by the clean-up.
\<close>

fun recording_task_function :: "task_env \<Rightarrow> task_pc \<Rightarrow> system \<Rightarrow> task_pc \<times> system" where
  "recording_task_function e Entry s = task_entry e s"
| "recording_task_function e Looping s =
     (if m_is_recording s then task_iteration e s else task_finish e s)"
| "recording_task_function e Deleted s = (Deleted, s)"
| "recording_task_function e Faulted s = (Faulted, s)"

text \<open>The scheduler lets task \<open>i\<close> take one step.\<close>

definition run_task :: "nat \<Rightarrow> task_env \<Rightarrow> system \<Rightarrow> system" where
  "run_task i e s =
     (if i < length (tasks s) then
        (let (pc', s') = recording_task_function e (tasks s ! i) s
         in s'\<lparr>tasks := (tasks s')[i := pc']\<rparr>)
      else s)"

fun run_tasks :: "(nat \<times> task_env) list \<Rightarrow> system \<Rightarrow> system" where
  "run_tasks [] s = s"
| "run_tasks ((i, e) # sched) s = run_tasks sched (run_task i e s)"

section \<open>The control side\<close>

text \<open>\<^verbatim>\<open>xTaskCreate\<close>: on success a new task exists and the handle names it.\<close>

definition xTaskCreate :: "bool \<Rightarrow> system \<Rightarrow> bool \<times> system" where
  "xTaskCreate pdPASS s =
     (if pdPASS then
        (True, s\<lparr>tasks := tasks s @ [Entry], m_recording_task_handle := Some (length (tasks s))\<rparr>)
      else (False, s))"

definition StartRecording :: "string \<Rightarrow> bool \<Rightarrow> system \<Rightarrow> bool \<times> system" where
  "StartRecording filepath pdPASS s =
     (if m_is_recording s then
        (False, ESP_LOG LOGE ''Recording is already in progress.'' s)
      else
        (let s1 = s\<lparr>m_filepath := filepath, m_is_recording := True, m_data_bytes_written := 0\<rparr>;
             (result, s2) = xTaskCreate pdPASS s1
         in if \<not> result then
              (False, (ESP_LOG LOGE ''Failed to create recording task'' s2)
                        \<lparr>m_is_recording := False\<rparr>)
            else (True, ESP_LOG LOGI ''Recording started, saving to %s'' s2)))"

text \<open>
  \<^verbatim>\<open>vTaskDelay(pdMS_TO_TICKS(200))\<close> blocks the caller for 200 ms. What the background tasks
  get done in that time is not the caller's to decide: \<open>sched\<close> lists the task steps that
  are completed before the delay expires.
\<close>

definition vTaskDelay :: "(nat \<times> task_env) list \<Rightarrow> system \<Rightarrow> system" where
  "vTaskDelay sched s = run_tasks sched s"

definition StopRecording :: "(nat \<times> task_env) list \<Rightarrow> system \<Rightarrow> bool \<times> system" where
  "StopRecording sched s =
     (if \<not> m_is_recording s then
        (False, ESP_LOG LOGE ''Not currently recording.'' s)
      else
        (let s1 = (ESP_LOG LOGI ''Stopping recording...'' s)\<lparr>m_is_recording := False\<rparr>;
             s2 = (if m_recording_task_handle s1 \<noteq> None then vTaskDelay sched s1 else s1)
         in (True, ESP_LOG LOGI ''Recording stopped. Total data bytes written: %d'' s2)))"

section \<open>Recording sessions\<close>

text \<open>
  The block that one pass of the loop body appends: the bytes delivered by a read that
  returned \<^verbatim>\<open>ESP_OK\<close> (none on an error or a timeout).
\<close>

definition block_of :: "task_env \<Rightarrow> byte list" where
  "block_of e = (if i2s_result e = ESP_OK then snd (i2s_read buffer_size e) else [])"

definition blocks_read :: "task_env list \<Rightarrow> byte list list" where
  "blocks_read es = filter (\<lambda>b. b \<noteq> []) (map block_of es)"

text \<open>The sink takes the whole of the \<^verbatim>\<open>fwrite\<close> of a step that writes \<open>n\<close> bytes.\<close>

definition sink_accepts :: "task_env \<Rightarrow> nat \<Rightarrow> bool" where
  "sink_accepts e n \<longleftrightarrow> n \<le> fwrite_accepts e"

text \<open>
  One recording session as the control side and the scheduler play it: \<^verbatim>\<open>StartRecording\<close>,
  the new task runs from its entry to the loop head (\<open>e0\<close>), makes one pass of the loop for
  each element of \<open>es\<close>, then \<^verbatim>\<open>StopRecording\<close> is called and the steps \<open>during_delay\<close> of the
  task complete before the delay expires. The result holds what the two calls returned
  and the state when \<^verbatim>\<open>StopRecording\<close> returns.
\<close>

definition session ::
  "string \<Rightarrow> task_env \<Rightarrow> task_env list \<Rightarrow> task_env list \<Rightarrow> system \<Rightarrow> bool \<times> bool \<times> system" where
  "session path e0 es during_delay s0 =
     (let i = length (tasks s0);
          (started, s1) = StartRecording path True s0;
          s2 = run_task i e0 s1;
          s3 = run_tasks (map (Pair i) es) s2;
          (stopped, s4) = StopRecording (map (Pair i) during_delay) s3
      in (started, stopped, s4))"

text \<open>
  The state of a session whose task \<open>i\<close> is at the loop head with \<open>payload\<close> appended so far:
  the file holds the placeholder header followed by the payload, the stream stands at its
  end, and the counter holds the payload's length.
\<close>

definition capturing ::
  "int32 \<Rightarrow> i2s_bits_per_sample_t \<Rightarrow> nat \<Rightarrow> string \<Rightarrow> byte list \<Rightarrow> system \<Rightarrow> bool" where
  "capturing rate bits i path payload s \<longleftrightarrow>
     m_sample_rate s = rate \<and> m_bits_per_sample s = bits \<and>
     m_recording_task_handle s = Some i \<and>
     i < length (tasks s) \<and> tasks s ! i = Looping \<and>
     m_file_handle s =
       Some \<lparr>f_path = path, f_pos = sizeof_WavHeader + length payload,
             f_readable = False, f_open = True\<rparr> \<and>
     disk s path = Some (header_bytes (placeholder_header rate bits) @ payload) \<and>
     m_data_bytes_written s = of_nat (length payload)"

text \<open>The header that the clean-up writes when the counter stands at \<open>n\<close>.\<close>

definition finalized_header :: "WavHeader \<Rightarrow> int32 \<Rightarrow> WavHeader" where
  "finalized_header uninit n =
     uninit\<lparr>data_bytes := n, wav_size := n + of_nat sizeof_WavHeader - 8\<rparr>"

text \<open>
  \<^verbatim>\<open>StopRecording\<close> called straight after \<^verbatim>\<open>StartRecording\<close>: the new task has not run yet
  when the flag is cleared, and takes the steps \<open>during_delay\<close> before the delay expires.
\<close>

definition stop_after_start ::
  "string \<Rightarrow> task_env list \<Rightarrow> system \<Rightarrow> bool \<times> bool \<times> system" where
  "stop_after_start path during_delay s0 =
     (let i = length (tasks s0);
          (started, s1) = StartRecording path True s0;
          (stopped, s2) = StopRecording (map (Pair i) during_delay) s1
      in (started, stopped, s2))"

definition stop_after_start_file :: "string \<Rightarrow> task_env list \<Rightarrow> system \<Rightarrow> byte list" where
  "stop_after_start_file path during_delay s0 =
     file_content (disk (snd (snd (stop_after_start path during_delay s0)))) path"

text \<open>The file a session leaves at its path, and the number of payload bytes it read.\<close>

definition session_file ::
  "string \<Rightarrow> task_env \<Rightarrow> task_env list \<Rightarrow> task_env list \<Rightarrow> system \<Rightarrow> byte list" where
  "session_file path e0 es during_delay s0 =
     file_content (disk (snd (snd (session path e0 es during_delay s0)))) path"

definition total_bytes :: "task_env list \<Rightarrow> nat" where
  "total_bytes es = sum_list (map length (blocks_read es))"

section \<open>Concrete inputs\<close>

text \<open>
  A recorder on an empty card, constructed and then configured by \<^verbatim>\<open>InstallDriver\<close> for
  16000 Hz and 16 bits per sample; one directory of the card does not exist.
\<close>

definition sd_path :: string where
  "sd_path = ''/sdcard/record.wav''"

definition missing_path :: string where
  "missing_path = ''/nodir/record.wav''"

definition installed_recorder :: system where
  "installed_recorder =
     snd (InstallDriver 16000 I2S_BITS_PER_SAMPLE_16BIT ESP_OK ESP_OK
            (ESP32AudioRecorder Map.empty {missing_path}))"

text \<open>Stack memory that happens to hold zero bytes.\<close>

definition zeroed_header :: WavHeader where
  "zeroed_header =
     \<lparr>riff_header = Char4 0 0 0 0, wav_size = 0, wave_header = Char4 0 0 0 0,
      fmt_header = Char4 0 0 0 0, fmt_chunk_size = 0, audio_format = 0, num_channels = 0,
      sample_rate = 0, byte_rate = 0, sample_alignment = 0, bit_depth = 0,
      data_header = Char4 0 0 0 0, data_bytes = 0\<rparr>"

text \<open>
  Answers of the surroundings: a read that delivers \<open>data\<close> with a sink that takes every
  write, a read that times out, and a read that delivers \<open>data\<close> while the sink takes
  nothing.
\<close>

definition delivers :: "byte list \<Rightarrow> task_env" where
  "delivers data =
     \<lparr>malloc_ok = True, i2s_result = ESP_OK, i2s_data = data, fwrite_accepts = buffer_size,
      stack_header = zeroed_header\<rparr>"

definition times_out :: task_env where
  "times_out = (delivers [])\<lparr>i2s_result := ESP_ERR_TIMEOUT\<rparr>"

definition sink_full :: "byte list \<Rightarrow> task_env" where
  "sink_full data = (delivers data)\<lparr>fwrite_accepts := 0\<rparr>"

text \<open>The recorder after \<^verbatim>\<open>StartRecording\<close>, and with its task arrived at the loop head.\<close>

definition started_recorder :: system where
  "started_recorder = snd (StartRecording sd_path True installed_recorder)"

definition at_loop_head :: system where
  "at_loop_head = run_task 0 (delivers []) started_recorder"

text \<open>
  Six reads that deliver 6000 bytes in all, none larger than the buffer: 4000 bytes as
  1024 + 1024 + 1024 + 928 and 2000 bytes as 1024 + 976.
\<close>

definition scenario_reads :: "task_env list" where
  "scenario_reads =
     [delivers (replicate 1024 0), delivers (replicate 1024 0), delivers (replicate 1024 0),
      delivers (replicate 928 0), delivers (replicate 1024 0), delivers (replicate 976 0)]"

text \<open>Reads that deliver \<open>2^31 - 1\<close> bytes in all: 2097151 full buffers and one of 1023 bytes.\<close>

definition long_recording :: "task_env list" where
  "long_recording =
     replicate 2097151 (delivers (replicate 1024 0)) @ [delivers (replicate 1023 0)]"

text \<open>
  Two sessions in which the card takes none of the four bytes of the only block read. In
  the first the card takes the header again when the task cleans up; in the second it
  still takes nothing.
\<close>

definition refused_block_run :: "bool \<times> bool \<times> system" where
  "refused_block_run =
     session sd_path (delivers []) [sink_full [1, 2, 3, 4]] [delivers []] installed_recorder"

definition card_full_run :: "bool \<times> bool \<times> system" where
  "card_full_run =
     session sd_path (delivers []) [sink_full [1, 2, 3, 4]] [sink_full []] installed_recorder"

section \<open>Basic facts about the stream operations and the task's steps\<close>

lemma length_header_bytes: "length (header_bytes h) = sizeof_WavHeader"
  by (cases "riff_header h"; cases "wave_header h"; cases "fmt_header h"; cases "data_header h")
     (simp add: header_bytes_def le32_def le16_def sizeof_WavHeader_def)

lemma write_at_end: "write_at c (length c) d = c @ d"
  by (simp add: write_at_def)

lemma write_at_front: "length h' = length h \<Longrightarrow> write_at (h @ p) 0 h' = h' @ p"
  by (simp add: write_at_def)

lemma fwrite_full:
  "length data \<le> k \<Longrightarrow>
   fwrite data k f d =
     (length data, f\<lparr>f_pos := f_pos f + length data\<rparr>,
      d(f_path f \<mapsto> write_at (file_content d (f_path f)) (f_pos f) data))"
  by (simp add: fwrite_def)

lemma task_entry_ok:
  assumes "m_filepath s \<notin> unopenable s" "malloc_ok e" "sink_accepts e sizeof_WavHeader"
  shows "task_entry e s =
    (Looping,
     s\<lparr>m_file_handle :=
         Some \<lparr>f_path = m_filepath s, f_pos = sizeof_WavHeader, f_readable = False,
               f_open = True\<rparr>,
       disk := (disk s)(m_filepath s \<mapsto>
                 header_bytes (placeholder_header (m_sample_rate s) (m_bits_per_sample s))),
       open_streams := open_streams s @ [m_filepath s],
       m_data_bytes_written := 0\<rparr>)"
  using assms
  by (simp add: task_entry_def fopen_wb_def write_wav_header_def fwrite_full length_header_bytes
      sink_accepts_def file_content_def write_at_def)

lemma task_iteration_block:
  assumes "block_of e \<noteq> []" "sink_accepts e (length (block_of e))"
    "m_file_handle s = Some f" "f_open f"
  shows "task_iteration e s =
    (Looping, s\<lparr>m_file_handle := Some (f\<lparr>f_pos := f_pos f + length (block_of e)\<rparr>),
       disk := (disk s)(f_path f \<mapsto> write_at (file_content (disk s) (f_path f)) (f_pos f) (block_of e)),
       m_data_bytes_written := m_data_bytes_written s + of_nat (length (block_of e))\<rparr>)"
  using assms
  by (auto simp add: task_iteration_def block_of_def i2s_read_def live_handle_def fwrite_full sink_accepts_def split: if_splits)

lemma task_iteration_no_block:
  assumes "block_of e = []"
  shows "task_iteration e s = (Looping, ESP_LOG LOGW ''I2S read error or timeout'' s)"
  using assms
  by (auto simp add: task_iteration_def block_of_def i2s_read_def split: if_splits)

lemma start_ok:
  assumes "\<not> m_is_recording s"
  shows "StartRecording path True s =
    (True, ESP_LOG LOGI ''Recording started, saving to %s''
       (s\<lparr>m_filepath := path, m_is_recording := True, m_data_bytes_written := 0,
          tasks := tasks s @ [Entry], m_recording_task_handle := Some (length (tasks s))\<rparr>))"
  using assms by (simp add: StartRecording_def xTaskCreate_def)

lemma start_capturing:
  assumes "\<not> m_is_recording s" "path \<notin> unopenable s" "malloc_ok e0"
    "sink_accepts e0 sizeof_WavHeader"
  shows "capturing (m_sample_rate s) (m_bits_per_sample s) (length (tasks s)) path []
           (run_task (length (tasks s)) e0 (snd (StartRecording path True s)))"
    and "m_is_recording (run_task (length (tasks s)) e0 (snd (StartRecording path True s)))"
  using assms
  by (simp_all add: start_ok run_task_def ESP_LOG_def task_entry_ok capturing_def)

lemma iteration_capturing:
  assumes "capturing rate bits i path payload s" "m_is_recording s"
    "sink_accepts e (length (block_of e))"
  shows "capturing rate bits i path (payload @ block_of e) (run_task i e s)"
    and "m_is_recording (run_task i e s)"
proof -
  show "capturing rate bits i path (payload @ block_of e) (run_task i e s)"
  proof (cases "block_of e = []")
    case True
    with assms show ?thesis
      by (simp add: capturing_def run_task_def task_iteration_no_block ESP_LOG_def)
  next
    case False
    with assms show ?thesis
      by (simp add: capturing_def run_task_def task_iteration_block file_content_def
          write_at_def length_header_bytes)
  qed
  show "m_is_recording (run_task i e s)"
  proof (cases "block_of e = []")
    case True
    with assms show ?thesis
      by (simp add: capturing_def run_task_def task_iteration_no_block ESP_LOG_def)
  next
    case False
    with assms show ?thesis
      by (simp add: capturing_def run_task_def task_iteration_block)
  qed
qed

lemma concat_blocks_read_Cons:
  "concat (blocks_read (e # es)) = block_of e @ concat (blocks_read es)"
  by (simp add: blocks_read_def)

lemma loop_capturing:
  assumes "capturing rate bits i path payload s" "m_is_recording s"
    "\<forall>e\<in>set es. sink_accepts e (length (block_of e))"
  shows "capturing rate bits i path (payload @ concat (blocks_read es)) (run_tasks (map (Pair i) es) s)
     \<and> m_is_recording (run_tasks (map (Pair i) es) s)"
  using assms
proof (induction es arbitrary: payload s)
  case Nil
  then show ?case by (simp add: blocks_read_def)
next
  case (Cons e es)
  from Cons.prems have step: "capturing rate bits i path (payload @ block_of e) (run_task i e s)"
    "m_is_recording (run_task i e s)"
    by (simp_all add: iteration_capturing)
  from Cons.IH [OF step] Cons.prems(3) show ?case
    by (simp add: concat_blocks_read_Cons)
qed

lemma update_wav_header_wb:
  assumes "\<not> f_readable f" "sink_accepts e sizeof_WavHeader"
    "disk s (f_path f) = Some (h @ payload)" "length h = sizeof_WavHeader"
  shows "update_wav_header (stack_header e) (fwrite_accepts e) f n s =
    s\<lparr>m_file_handle := Some (f\<lparr>f_pos := sizeof_WavHeader\<rparr>),
      disk := (disk s)(f_path f \<mapsto> header_bytes (finalized_header (stack_header e) n) @ payload)\<rparr>"
proof -
  have "fwrite_accepts e \<noteq> 0"
    using assms(2) by (auto simp add: sink_accepts_def sizeof_WavHeader_def)
  with assms show ?thesis
    by (simp add: update_wav_header_def fseek_set0_def fread_header_def fwrite_full
        length_header_bytes sink_accepts_def finalized_header_def file_content_def write_at_def)
qed

lemma stop_capturing:
  assumes "capturing rate bits i path payload s" "m_is_recording s"
    "sink_accepts ef sizeof_WavHeader"
  shows "fst (StopRecording [(i, ef)] s)"
    and "disk (snd (StopRecording [(i, ef)] s)) path =
           Some (header_bytes (finalized_header (stack_header ef) (of_nat (length payload))) @ payload)"
    and "m_file_handle (snd (StopRecording [(i, ef)] s)) = None"
    and "tasks (snd (StopRecording [(i, ef)] s)) ! i = Deleted"
    and "\<not> m_is_recording (snd (StopRecording [(i, ef)] s))"
    and "m_data_bytes_written (snd (StopRecording [(i, ef)] s)) = of_nat (length payload)"
  using assms
  by (simp_all add: StopRecording_def vTaskDelay_def run_task_def capturing_def ESP_LOG_def
      task_finish_def live_handle_def update_wav_header_wb length_header_bytes
      fclose_handle_def fclose_def)

lemma join_le32:
  "ucast (ucast w :: byte) OR push_bit 8 (ucast (ucast (drop_bit 8 w) :: byte)) OR
   push_bit 16 (ucast (ucast (drop_bit 16 w) :: byte)) OR
   push_bit 24 (ucast (ucast (drop_bit 24 w) :: byte)) = (w :: int32)"
proof (rule bit_word_eqI)
  fix n assume "n < LENGTH(32)"
  then show "bit (ucast (ucast w :: byte) OR push_bit 8 (ucast (ucast (drop_bit 8 w) :: byte)) OR
      push_bit 16 (ucast (ucast (drop_bit 16 w) :: byte)) OR
      push_bit 24 (ucast (ucast (drop_bit 24 w) :: byte)) :: int32) n = bit w n"
    by (cases "n < 8"; cases "n < 16"; cases "n < 24") (auto simp: bit_simps)
qed

lemma join_le16:
  "ucast (ucast w :: byte) OR push_bit 8 (ucast (ucast (drop_bit 8 w) :: byte)) = (w :: int16)"
proof (rule bit_word_eqI)
  fix n assume "n < LENGTH(16)"
  then show "bit (ucast (ucast w :: byte) OR push_bit 8 (ucast (ucast (drop_bit 8 w) :: byte)) :: int16) n = bit w n"
    by (cases "n < 8") (auto simp: bit_simps)
qed

lemma header_of_bytes_header_bytes: "header_of_bytes (header_bytes h @ rest) = h"
  by (cases "riff_header h"; cases "wave_header h"; cases "fmt_header h"; cases "data_header h")
     (simp add: header_bytes_def header_of_bytes_def le32_def le16_def rd_le32_def rd_le16_def
        rd_char4_def join_le32 join_le16)

lemma sint_of_nat32: "n < 2 ^ 31 \<Longrightarrow> sint (of_nat n :: int32) = int n"
proof -
  assume "n < 2 ^ 31"
  then have "int n < 2 ^ 31" by (metis of_nat_less_iff of_nat_numeral of_nat_power)
  then have "signed_take_bit 31 (int n) = int n"
    by (simp add: signed_take_bit_int_eq_self)
  moreover have "(of_nat n :: int32) = word_of_int (int n)" by simp
  ultimately show ?thesis
    by (simp only: sint_sbintrunc') simp
qed

lemma sint_lt_32: "sint (w :: int32) < 2 ^ 31"
  using sint_lt [of w] by simp

lemma list_update_same: "i < length xs \<Longrightarrow> xs ! i = v \<Longrightarrow> xs[i := v] = xs"
  by (metis list_update_id)

lemma session_result:
  assumes "\<not> m_is_recording s0" "path \<notin> unopenable s0" "malloc_ok e0"
    "sink_accepts e0 sizeof_WavHeader"
    "\<forall>e\<in>set es. sink_accepts e (length (block_of e))"
    "sink_accepts ef sizeof_WavHeader"
  shows "fst (session path e0 es [ef] s0)"
    and "fst (snd (session path e0 es [ef] s0))"
    and "disk (snd (snd (session path e0 es [ef] s0))) path =
           Some (header_bytes (finalized_header (stack_header ef)
                   (of_nat (length (concat (blocks_read es))))) @ concat (blocks_read es))"
    and "m_file_handle (snd (snd (session path e0 es [ef] s0))) = None"
    and "tasks (snd (snd (session path e0 es [ef] s0))) ! length (tasks s0) = Deleted"
    and "\<not> m_is_recording (snd (snd (session path e0 es [ef] s0)))"
    and "m_data_bytes_written (snd (snd (session path e0 es [ef] s0))) =
           of_nat (length (concat (blocks_read es)))"
proof -
  let ?i = "length (tasks s0)"
  let ?s2 = "run_task ?i e0 (snd (StartRecording path True s0))"
  let ?s3 = "run_tasks (map (Pair ?i) es) ?s2"
  have started: "fst (StartRecording path True s0)"
    using assms(1) by (simp add: start_ok)
  have c2: "capturing (m_sample_rate s0) (m_bits_per_sample s0) ?i path [] ?s2"
    and r2: "m_is_recording ?s2"
    using assms(1-4) by (rule start_capturing)+
  from loop_capturing [OF c2 r2 assms(5)]
  have c3: "capturing (m_sample_rate s0) (m_bits_per_sample s0) ?i path (concat (blocks_read es)) ?s3"
    and r3: "m_is_recording ?s3"
    by simp_all
  have unfold: "session path e0 es [ef] s0 =
      (fst (StartRecording path True s0), fst (StopRecording [(?i, ef)] ?s3),
       snd (StopRecording [(?i, ef)] ?s3))"
    by (simp add: session_def Let_def case_prod_beta)
  show "fst (session path e0 es [ef] s0)"
    using started by (simp add: unfold)
  show "fst (snd (session path e0 es [ef] s0))"
    using stop_capturing(1) [OF c3 r3 assms(6)] by (simp add: unfold)
  show "disk (snd (snd (session path e0 es [ef] s0))) path =
           Some (header_bytes (finalized_header (stack_header ef)
                   (of_nat (length (concat (blocks_read es))))) @ concat (blocks_read es))"
    using stop_capturing(2) [OF c3 r3 assms(6)] by (simp add: unfold)
  show "m_file_handle (snd (snd (session path e0 es [ef] s0))) = None"
    using stop_capturing(3) [OF c3 r3 assms(6)] by (simp add: unfold)
  show "tasks (snd (snd (session path e0 es [ef] s0))) ! length (tasks s0) = Deleted"
    using stop_capturing(4) [OF c3 r3 assms(6)] by (simp add: unfold)
  show "\<not> m_is_recording (snd (snd (session path e0 es [ef] s0)))"
    using stop_capturing(5) [OF c3 r3 assms(6)] by (simp add: unfold)
  show "m_data_bytes_written (snd (snd (session path e0 es [ef] s0))) =
           of_nat (length (concat (blocks_read es)))"
    using stop_capturing(6) [OF c3 r3 assms(6)] by (simp add: unfold)
qed

lemma stop_without_progress:
  assumes "capturing rate bits i path payload s" "m_is_recording s"
  shows "StopRecording [] s =
    (True, s\<lparr>m_is_recording := False,
             esp_log := esp_log s @ [(LOGI, ''Stopping recording...''),
               (LOGI, ''Recording stopped. Total data bytes written: %d'')]\<rparr>)"
  using assms
  by (simp add: StopRecording_def vTaskDelay_def ESP_LOG_def capturing_def)

section \<open>Facts about the concrete inputs\<close>

lemma installed_recorder_fields:
  "m_sample_rate installed_recorder = 16000"
  "m_bits_per_sample installed_recorder = I2S_BITS_PER_SAMPLE_16BIT"
  "\<not> m_is_recording installed_recorder"
  "tasks installed_recorder = []"
  "unopenable installed_recorder = {missing_path}"
  "disk installed_recorder = Map.empty"
  by (simp_all add: installed_recorder_def InstallDriver_def ESP32AudioRecorder_def ESP_LOG_def)

lemma delivers_fields:
  "malloc_ok (delivers d)" "i2s_result (delivers d) = ESP_OK" "i2s_data (delivers d) = d"
  "fwrite_accepts (delivers d) = buffer_size" "stack_header (delivers d) = zeroed_header"
  by (simp_all add: delivers_def)

lemma block_of_delivers: "length d \<le> buffer_size \<Longrightarrow> block_of (delivers d) = d"
  by (simp add: block_of_def i2s_read_def delivers_def)

lemma sink_accepts_delivers_header: "sink_accepts (delivers d) sizeof_WavHeader"
  by (simp add: sink_accepts_def delivers_def buffer_size_def sizeof_WavHeader_def)

lemma sink_accepts_delivers_block: "sink_accepts (delivers d) (length (block_of (delivers d)))"
  by (simp add: sink_accepts_def delivers_def buffer_size_def block_of_def i2s_read_def)

lemma at_loop_head_capturing:
  "capturing 16000 I2S_BITS_PER_SAMPLE_16BIT 0 sd_path [] at_loop_head"
  "m_is_recording at_loop_head"
proof -
  have a: "\<not> m_is_recording installed_recorder" "sd_path \<notin> unopenable installed_recorder"
    by (simp_all add: installed_recorder_fields sd_path_def missing_path_def)
  from start_capturing [OF a delivers_fields(1) sink_accepts_delivers_header, of "[]"]
  show "capturing 16000 I2S_BITS_PER_SAMPLE_16BIT 0 sd_path [] at_loop_head"
    "m_is_recording at_loop_head"
    by (simp_all add: installed_recorder_fields at_loop_head_def started_recorder_def)
qed

lemma started_recorder_recording: "m_is_recording started_recorder"
  by (simp add: started_recorder_def start_ok installed_recorder_fields ESP_LOG_def)

section \<open>Whole sessions\<close>

lemma total_bytes_concat: "length (concat (blocks_read es)) = total_bytes es"
  by (simp add: total_bytes_def length_concat)

lemma session_file_result:
  assumes "\<not> m_is_recording s0" "path \<notin> unopenable s0" "malloc_ok e0"
    "sink_accepts e0 sizeof_WavHeader"
    "\<forall>e\<in>set es. sink_accepts e (length (block_of e))"
    "sink_accepts ef sizeof_WavHeader"
  shows "session_file path e0 es [ef] s0 =
           header_bytes (finalized_header (stack_header ef) (of_nat (total_bytes es))) @
           concat (blocks_read es)"
  using session_result(3) [OF assms]
  by (simp add: session_file_def file_content_def total_bytes_concat)

lemma session_without_progress:
  assumes "\<not> m_is_recording s0" "path \<notin> unopenable s0" "malloc_ok e0"
    "sink_accepts e0 sizeof_WavHeader"
    "\<forall>e\<in>set es. sink_accepts e (length (block_of e))"
  shows "fst (session path e0 es [] s0)"
    and "fst (snd (session path e0 es [] s0))"
    and "session_file path e0 es [] s0 =
           header_bytes (placeholder_header (m_sample_rate s0) (m_bits_per_sample s0)) @
           concat (blocks_read es)"
    and "m_file_handle (snd (snd (session path e0 es [] s0))) =
           Some \<lparr>f_path = path, f_pos = sizeof_WavHeader + total_bytes es,
                 f_readable = False, f_open = True\<rparr>"
    and "tasks (snd (snd (session path e0 es [] s0))) ! length (tasks s0) = Looping"
proof -
  let ?i = "length (tasks s0)"
  let ?s2 = "run_task ?i e0 (snd (StartRecording path True s0))"
  let ?s3 = "run_tasks (map (Pair ?i) es) ?s2"
  have started: "fst (StartRecording path True s0)"
    using assms(1) by (simp add: start_ok)
  have c2: "capturing (m_sample_rate s0) (m_bits_per_sample s0) ?i path [] ?s2"
    and r2: "m_is_recording ?s2"
    using assms(1-4) by (rule start_capturing)+
  from loop_capturing [OF c2 r2 assms(5)]
  have c3: "capturing (m_sample_rate s0) (m_bits_per_sample s0) ?i path (concat (blocks_read es)) ?s3"
    and r3: "m_is_recording ?s3"
    by simp_all
  have unfold: "session path e0 es [] s0 =
      (fst (StartRecording path True s0), fst (StopRecording [] ?s3), snd (StopRecording [] ?s3))"
    by (simp add: session_def Let_def case_prod_beta)
  note stop = stop_without_progress [OF c3 r3]
  show "fst (session path e0 es [] s0)"
    using started by (simp add: unfold)
  show "fst (snd (session path e0 es [] s0))"
    by (simp add: unfold stop)
  show "session_file path e0 es [] s0 =
           header_bytes (placeholder_header (m_sample_rate s0) (m_bits_per_sample s0)) @
           concat (blocks_read es)"
    using c3 by (simp add: session_file_def unfold stop capturing_def file_content_def)
  show "m_file_handle (snd (snd (session path e0 es [] s0))) =
           Some \<lparr>f_path = path, f_pos = sizeof_WavHeader + total_bytes es,
                 f_readable = False, f_open = True\<rparr>"
    using c3 by (simp add: unfold stop capturing_def total_bytes_concat)
  show "tasks (snd (snd (session path e0 es [] s0))) ! length (tasks s0) = Looping"
    using c3 by (simp add: unfold stop capturing_def)
qed

lemma no_blocks_sink_accepts:
  assumes "blocks_read es = []"
  shows "\<forall>e\<in>set es. sink_accepts e (length (block_of e))"
proof
  fix e assume "e \<in> set es"
  with assms have "block_of e = []"
    by (auto simp add: blocks_read_def filter_empty_conv)
  then show "sink_accepts e (length (block_of e))"
    by (simp add: sink_accepts_def)
qed

lemma finalized_header_fields:
  "data_bytes (finalized_header h n) = n"
  "wav_size (finalized_header h n) = n + 36"
  by (simp_all add: finalized_header_def sizeof_WavHeader_def)

lemma header_of_bytes_header_bytes_only: "header_of_bytes (header_bytes h) = h"
  using header_of_bytes_header_bytes [of h "[]"] by simp

lemma placeholder_16k_16bit:
  "byte_rate (placeholder_header 16000 I2S_BITS_PER_SAMPLE_16BIT) = 32000"
  "riff_header (placeholder_header 16000 I2S_BITS_PER_SAMPLE_16BIT) = Char4 82 73 70 70"
  "sample_rate (placeholder_header 16000 I2S_BITS_PER_SAMPLE_16BIT) = 16000"
  by (simp_all add: placeholder_header_def bytes_per_sample_def signed_divide_int_def memcpy4_def)

lemma blocks_read_scenario:
  "blocks_read scenario_reads =
     [replicate 1024 0, replicate 1024 0, replicate 1024 0, replicate 928 0,
      replicate 1024 0, replicate 976 0]"
  by (simp add: blocks_read_def scenario_reads_def block_of_delivers buffer_size_def)

lemma total_bytes_scenario: "total_bytes scenario_reads = 6000"
  by (simp add: total_bytes_def blocks_read_scenario)

lemma blocks_read_long:
  "blocks_read long_recording = replicate 2097151 (replicate 1024 0) @ [replicate 1023 0]"
  by (simp add: blocks_read_def long_recording_def block_of_delivers buffer_size_def)

lemma total_bytes_long: "total_bytes long_recording = 2147483647"
  by (simp add: total_bytes_def blocks_read_long sum_list_replicate)

lemma sink_accepts_scenario: "\<forall>e\<in>set scenario_reads. sink_accepts e (length (block_of e))"
  by (simp add: scenario_reads_def sink_accepts_delivers_block)

lemma sink_accepts_long: "\<forall>e\<in>set long_recording. sink_accepts e (length (block_of e))"
  by (simp add: long_recording_def sink_accepts_delivers_block)

lemma installed_recorder_ready:
  "\<not> m_is_recording installed_recorder" "sd_path \<notin> unopenable installed_recorder"
  by (simp_all add: installed_recorder_fields sd_path_def missing_path_def)

lemma sint_of_nat32_iff: "sint (of_nat n :: int32) = int n \<longleftrightarrow> n < 2 ^ 31"
proof
  assume "sint (of_nat n :: int32) = int n"
  moreover have "sint (of_nat n :: int32) < 2 ^ 31" by (rule sint_lt_32)
  ultimately have "int n < 2 ^ 31" by simp
  then show "n < 2 ^ 31" by (metis of_nat_less_iff of_nat_numeral of_nat_power)
next
  assume "n < 2 ^ 31"
  then show "sint (of_nat n :: int32) = int n" by (rule sint_of_nat32)
qed

lemma block_of_times_out: "block_of times_out = []"
  by (simp add: block_of_def times_out_def)

lemma blocks_read_times_out: "blocks_read [times_out] = []"
  by (simp add: blocks_read_def block_of_times_out)

lemma blocks_read_four: "blocks_read [delivers [1, 2, 3, 4]] = [[1, 2, 3, 4]]"
  by (simp add: blocks_read_def block_of_delivers buffer_size_def)

lemma sink_accepts_four:
  "\<forall>e\<in>set [delivers [1, 2, 3, 4]]. sink_accepts e (length (block_of e))"
  by (simp add: sink_accepts_delivers_block)

lemma stop_after_start_result:
  assumes "\<not> m_is_recording s0" "path \<notin> unopenable s0" "malloc_ok e0"
    "sink_accepts e0 sizeof_WavHeader" "sink_accepts ef sizeof_WavHeader"
  shows "fst (stop_after_start path [e0, ef] s0)"
    and "fst (snd (stop_after_start path [e0, ef] s0))"
    and "stop_after_start_file path [e0, ef] s0 =
           header_bytes (finalized_header (stack_header ef) 0)"
    and "m_file_handle (snd (snd (stop_after_start path [e0, ef] s0))) = None"
    and "tasks (snd (snd (stop_after_start path [e0, ef] s0))) ! length (tasks s0) = Deleted"
proof -
  let ?i = "length (tasks s0)"
  let ?s1 = "snd (StartRecording path True s0)"
  let ?f = "\<lparr>f_path = path, f_pos = sizeof_WavHeader, f_readable = False, f_open = True\<rparr>"
  let ?ph = "header_bytes (placeholder_header (m_sample_rate s0) (m_bits_per_sample s0))"
  have upd: "\<And>s. disk s path = Some ?ph \<Longrightarrow>
      update_wav_header (stack_header ef) (fwrite_accepts ef) ?f 0 s =
        s\<lparr>m_file_handle := Some (?f\<lparr>f_pos := sizeof_WavHeader\<rparr>),
          disk := (disk s)(path \<mapsto> header_bytes (finalized_header (stack_header ef) 0) @ [])\<rparr>"
    using update_wav_header_wb [of ?f ef _ ?ph "[]" 0] assms(5)
    by (simp add: length_header_bytes)
  have stop: "StopRecording [(?i, e0), (?i, ef)] ?s1 =
      (True, snd (StopRecording [(?i, e0), (?i, ef)] ?s1))"
    using assms(1) by (simp add: StopRecording_def start_ok ESP_LOG_def Let_def)
  have unfold: "stop_after_start path [e0, ef] s0 =
      (True, True, snd (StopRecording [(?i, e0), (?i, ef)] ?s1))"
    using assms(1) stop by (simp add: stop_after_start_def Let_def case_prod_beta start_ok)
  have final: "disk (snd (StopRecording [(?i, e0), (?i, ef)] ?s1)) path =
        Some (header_bytes (finalized_header (stack_header ef) 0))"
    "m_file_handle (snd (StopRecording [(?i, e0), (?i, ef)] ?s1)) = None"
    "tasks (snd (StopRecording [(?i, e0), (?i, ef)] ?s1)) ! ?i = Deleted"
    using assms
    by (simp_all add: StopRecording_def start_ok ESP_LOG_def vTaskDelay_def run_task_def
        task_entry_ok task_finish_def live_handle_def upd fclose_handle_def fclose_def Let_def)
  show "fst (stop_after_start path [e0, ef] s0)"
    by (simp add: unfold)
  show "fst (snd (stop_after_start path [e0, ef] s0))"
    by (simp add: unfold)
  show "stop_after_start_file path [e0, ef] s0 =
           header_bytes (finalized_header (stack_header ef) 0)"
    by (simp add: stop_after_start_file_def unfold final file_content_def)
  show "m_file_handle (snd (snd (stop_after_start path [e0, ef] s0))) = None"
    by (simp add: unfold final)
  show "tasks (snd (snd (stop_after_start path [e0, ef] s0))) ! length (tasks s0) = Deleted"
    by (simp add: unfold final)
qed

lemma at_loop_head_state:
  "at_loop_head =
     \<lparr>m_sample_rate = 16000, m_bits_per_sample = I2S_BITS_PER_SAMPLE_16BIT,
      m_filepath = sd_path,
      m_file_handle =
        Some \<lparr>f_path = sd_path, f_pos = sizeof_WavHeader, f_readable = False, f_open = True\<rparr>,
      m_recording_task_handle = Some 0, m_is_recording = True, m_data_bytes_written = 0,
      disk = [sd_path \<mapsto> header_bytes (placeholder_header 16000 I2S_BITS_PER_SAMPLE_16BIT)],
      unopenable = {missing_path}, open_streams = [sd_path], tasks = [Looping],
      esp_log = [(LOGI, ''I2S driver installed successfully''),
                 (LOGI, ''Recording started, saving to %s'')]\<rparr>"
proof -
  have i: "installed_recorder =
     \<lparr>m_sample_rate = 16000, m_bits_per_sample = I2S_BITS_PER_SAMPLE_16BIT, m_filepath = [],
      m_file_handle = None, m_recording_task_handle = None, m_is_recording = False,
      m_data_bytes_written = 0, disk = Map.empty, unopenable = {missing_path},
      open_streams = [], tasks = [],
      esp_log = [(LOGI, ''I2S driver installed successfully'')]\<rparr>"
    by (simp add: installed_recorder_def InstallDriver_def ESP32AudioRecorder_def ESP_LOG_def)
  show ?thesis
    by (simp add: at_loop_head_def started_recorder_def i StartRecording_def xTaskCreate_def
        ESP_LOG_def run_task_def task_entry_ok sd_path_def missing_path_def delivers_fields
        sink_accepts_delivers_header)
qed

lemma session_installed:
  "session sd_path (delivers []) es dd installed_recorder =
     (True, fst (StopRecording (map (Pair 0) dd) (run_tasks (map (Pair 0) es) at_loop_head)),
      snd (StopRecording (map (Pair 0) dd) (run_tasks (map (Pair 0) es) at_loop_head)))"
  by (simp add: session_def Let_def case_prod_beta at_loop_head_def started_recorder_def
      installed_recorder_fields start_ok)

lemma after_refused_block:
  "run_task 0 (sink_full [1, 2, 3, 4]) at_loop_head =
     at_loop_head\<lparr>m_data_bytes_written := 4\<rparr>"
  by (simp add: at_loop_head_state run_task_def task_iteration_def i2s_read_def sink_full_def
      delivers_def buffer_size_def live_handle_def fwrite_def file_content_def write_at_def
      length_header_bytes)

section \<open>The claims\<close>

subsection \<open>Stopping and the finalize write\<close>

text \<open>
  Claim C1 says that when \<^verbatim>\<open>StopRecording\<close> returns \<open>True\<close> the header has been
  finalized and the file closed. \<^verbatim>\<open>StopRecording\<close> clears the flag, sleeps for a fixed 200 ms
  and returns; it
  never looks at what the task has done. In this run the task has appended one block of
  four bytes and does not get to its next test of the flag before the delay expires. Both
  calls return \<open>True\<close>; at the return of \<^verbatim>\<open>StopRecording\<close> the file is the placeholder header,
  whose data size is 0, followed by the four bytes, the stream is still open, and the task
  is still in its loop.
\<close>

theorem stop_returns_before_finalize:
  "fst (session sd_path (delivers []) [delivers [1, 2, 3, 4]] [] installed_recorder) \<and>
   fst (snd (session sd_path (delivers []) [delivers [1, 2, 3, 4]] [] installed_recorder)) \<and>
   session_file sd_path (delivers []) [delivers [1, 2, 3, 4]] [] installed_recorder =
     header_bytes (placeholder_header 16000 I2S_BITS_PER_SAMPLE_16BIT) @ [1, 2, 3, 4] \<and>
   data_bytes (header_of_bytes
     (session_file sd_path (delivers []) [delivers [1, 2, 3, 4]] [] installed_recorder)) = 0 \<and>
   m_file_handle (snd (snd
     (session sd_path (delivers []) [delivers [1, 2, 3, 4]] [] installed_recorder))) =
     Some \<lparr>f_path = sd_path, f_pos = 48, f_readable = False, f_open = True\<rparr> \<and>
   tasks (snd (snd
     (session sd_path (delivers []) [delivers [1, 2, 3, 4]] [] installed_recorder))) ! 0 = Looping"
proof -
  note r = session_without_progress [OF installed_recorder_ready delivers_fields(1)
      sink_accepts_delivers_header sink_accepts_four, of "[]"]
  have t: "total_bytes [delivers [1, 2, 3, 4]] = 4"
    by (simp add: total_bytes_def blocks_read_four)
  have z: "data_bytes (placeholder_header 16000 I2S_BITS_PER_SAMPLE_16BIT) = 0"
    by (simp add: placeholder_header_def)
  from r show ?thesis
    by (simp add: installed_recorder_fields blocks_read_four t sizeof_WavHeader_def
        header_of_bytes_header_bytes z)
qed

subsection \<open>A destination that cannot be opened\<close>

text \<open>
  Claim C2 says that \<^verbatim>\<open>StartRecording\<close> fails for a path that cannot be opened. It does
  not: the file is opened by the background task, after \<^verbatim>\<open>StartRecording\<close> has returned.
  Here the call returns \<open>True\<close> and sets the flag although the path cannot be opened.
\<close>

theorem start_unopenable_counterexample:
  "missing_path \<in> unopenable installed_recorder \<and>
   fst (StartRecording missing_path True installed_recorder) \<and>
   m_is_recording (snd (StartRecording missing_path True installed_recorder))"
  by (simp add: installed_recorder_fields start_ok ESP_LOG_def)

text \<open>
  Claim C2, amended. When the recorder is not recording and the task can be created,
  \<^verbatim>\<open>StartRecording\<close> with a path that cannot be opened returns \<open>True\<close>, sets the flag and
  creates no file. The failure shows in the first step of the new task: it logs an error,
  clears the flag and deletes itself, with the disk as it was.
\<close>

theorem start_with_unopenable_path:
  assumes "path \<in> unopenable s" and "\<not> m_is_recording s"
  shows "fst (StartRecording path True s) \<and>
         m_is_recording (snd (StartRecording path True s)) \<and>
         disk (snd (StartRecording path True s)) = disk s \<and>
         run_task (length (tasks s)) e (snd (StartRecording path True s)) =
           (snd (StartRecording path True s))
             \<lparr>m_file_handle := None, m_is_recording := False, tasks := tasks s @ [Deleted],
              esp_log := esp_log (snd (StartRecording path True s)) @
                           [(LOGE, ''Failed to open file for writing: %s'')]\<rparr>"
  using assms
  by (simp add: start_ok ESP_LOG_def run_task_def task_entry_def fopen_wb_def)

text \<open>The amended claim on the path in the missing directory.\<close>

theorem start_unopenable_witness:
  "missing_path \<in> unopenable installed_recorder \<and>
   \<not> m_is_recording installed_recorder \<and>
   fst (StartRecording missing_path True installed_recorder) \<and>
   disk (snd (StartRecording missing_path True installed_recorder)) = Map.empty \<and>
   \<not> m_is_recording
       (run_task 0 (delivers []) (snd (StartRecording missing_path True installed_recorder))) \<and>
   disk (run_task 0 (delivers []) (snd (StartRecording missing_path True installed_recorder))) =
     Map.empty \<and>
   tasks (run_task 0 (delivers []) (snd (StartRecording missing_path True installed_recorder))) =
     [Deleted]"
proof -
  have a: "missing_path \<in> unopenable installed_recorder" "\<not> m_is_recording installed_recorder"
    by (simp_all add: installed_recorder_fields)
  from start_with_unopenable_path [OF a, of "delivers []"] a show ?thesis
    by (simp add: installed_recorder_fields)
qed

subsection \<open>Sink write failures\<close>

text \<open>
  Claim C3 says that a failed sink write ends the session and is reported. The recorder
  drops the result of every stream call instead. In the first session the card takes none
  of the four bytes of a block: the step of the task changes nothing but the counter, which
  advances by four, so the task stays in the loop, the flag stays set and nothing is
  logged. After the stop both calls have returned \<open>True\<close>, the log holds no warning or
  error and says that the file was saved, the stream is closed, and the file is a header
  alone whose data size is 4, with no payload behind it. In the second session the card
  still takes nothing during the clean-up: \<^verbatim>\<open>fseek\<close> returns \<open>-1\<close> and leaves the position,
  the header write stores nothing and \<^verbatim>\<open>fclose\<close> returns \<^verbatim>\<open>EOF\<close>. The file keeps the placeholder
  header, the stream is closed, and the two calls and the log are as in the first session.
\<close>

theorem sink_failures_go_unreported:
  "run_task 0 (sink_full [1, 2, 3, 4]) at_loop_head =
     at_loop_head\<lparr>m_data_bytes_written := 4\<rparr> \<and>
   fst refused_block_run \<and> fst (snd refused_block_run) \<and>
   disk (snd (snd refused_block_run)) sd_path =
     Some (header_bytes (finalized_header zeroed_header 4)) \<and>
   length (file_content (disk (snd (snd refused_block_run))) sd_path) = sizeof_WavHeader \<and>
   data_bytes (header_of_bytes (file_content (disk (snd (snd refused_block_run))) sd_path)) = 4 \<and>
   open_streams (snd (snd refused_block_run)) = [] \<and>
   esp_log (snd (snd refused_block_run)) =
     [(LOGI, ''I2S driver installed successfully''),
      (LOGI, ''Recording started, saving to %s''),
      (LOGI, ''Stopping recording...''),
      (LOGI, ''File saved. Task is finishing.''),
      (LOGI, ''Recording stopped. Total data bytes written: %d'')] \<and>
   fseek_set0 (fwrite_accepts (sink_full []))
       \<lparr>f_path = sd_path, f_pos = sizeof_WavHeader, f_readable = False, f_open = True\<rparr> =
     (- 1, \<lparr>f_path = sd_path, f_pos = sizeof_WavHeader, f_readable = False, f_open = True\<rparr>) \<and>
   fst (fclose (fwrite_accepts (sink_full []))
          \<lparr>f_path = sd_path, f_pos = sizeof_WavHeader, f_readable = False, f_open = True\<rparr>
          [sd_path]) = EOF \<and>
   fst card_full_run \<and> fst (snd card_full_run) \<and>
   disk (snd (snd card_full_run)) sd_path =
     Some (header_bytes (placeholder_header 16000 I2S_BITS_PER_SAMPLE_16BIT)) \<and>
   open_streams (snd (snd card_full_run)) = [] \<and>
   esp_log (snd (snd card_full_run)) = esp_log (snd (snd refused_block_run))"
proof -
  have a: "snd (snd refused_block_run) =
      snd (StopRecording [(0, delivers [])] (at_loop_head\<lparr>m_data_bytes_written := 4\<rparr>))"
    "fst (snd refused_block_run) =
      fst (StopRecording [(0, delivers [])] (at_loop_head\<lparr>m_data_bytes_written := 4\<rparr>))"
    "fst refused_block_run"
    by (simp_all add: refused_block_run_def session_installed after_refused_block)
  have b: "snd (snd card_full_run) =
      snd (StopRecording [(0, sink_full [])] (at_loop_head\<lparr>m_data_bytes_written := 4\<rparr>))"
    "fst (snd card_full_run) =
      fst (StopRecording [(0, sink_full [])] (at_loop_head\<lparr>m_data_bytes_written := 4\<rparr>))"
    "fst card_full_run"
    by (simp_all add: card_full_run_def session_installed after_refused_block)
  have stop1: "StopRecording [(0, delivers [])] (at_loop_head\<lparr>m_data_bytes_written := 4\<rparr>) =
     (True, at_loop_head
        \<lparr>m_data_bytes_written := 4, m_is_recording := False, m_file_handle := None,
         m_recording_task_handle := None, tasks := [Deleted], open_streams := [],
         disk := [sd_path \<mapsto> header_bytes (finalized_header zeroed_header 4)],
         esp_log := [(LOGI, ''I2S driver installed successfully''),
           (LOGI, ''Recording started, saving to %s''),
           (LOGI, ''Stopping recording...''),
           (LOGI, ''File saved. Task is finishing.''),
           (LOGI, ''Recording stopped. Total data bytes written: %d'')]\<rparr>)"
    by (simp add: at_loop_head_state StopRecording_def vTaskDelay_def ESP_LOG_def run_task_def
        task_finish_def live_handle_def update_wav_header_def fseek_set0_def fread_header_def
        fwrite_def fclose_handle_def fclose_def delivers_def buffer_size_def file_content_def
        write_at_def length_header_bytes finalized_header_def sizeof_WavHeader_def Let_def)
  have stop2: "StopRecording [(0, sink_full [])] (at_loop_head\<lparr>m_data_bytes_written := 4\<rparr>) =
     (True, at_loop_head
        \<lparr>m_data_bytes_written := 4, m_is_recording := False, m_file_handle := None,
         m_recording_task_handle := None, tasks := [Deleted], open_streams := [],
         esp_log := [(LOGI, ''I2S driver installed successfully''),
           (LOGI, ''Recording started, saving to %s''),
           (LOGI, ''Stopping recording...''),
           (LOGI, ''File saved. Task is finishing.''),
           (LOGI, ''Recording stopped. Total data bytes written: %d'')]\<rparr>)"
    by (simp add: at_loop_head_state StopRecording_def vTaskDelay_def ESP_LOG_def run_task_def
        task_finish_def live_handle_def update_wav_header_def fseek_set0_def fread_header_def
        fwrite_def fclose_handle_def fclose_def sink_full_def delivers_def file_content_def
        write_at_def length_header_bytes sizeof_WavHeader_def Let_def)
  have c: "fseek_set0 (fwrite_accepts (sink_full []))
        \<lparr>f_path = sd_path, f_pos = sizeof_WavHeader, f_readable = False, f_open = True\<rparr> =
      (- 1, \<lparr>f_path = sd_path, f_pos = sizeof_WavHeader, f_readable = False, f_open = True\<rparr>)"
    "fst (fclose (fwrite_accepts (sink_full []))
        \<lparr>f_path = sd_path, f_pos = sizeof_WavHeader, f_readable = False, f_open = True\<rparr>
        [sd_path]) = EOF"
    by (simp_all add: fseek_set0_def fclose_def sink_full_def delivers_def)
  have d: "disk at_loop_head sd_path =
      Some (header_bytes (placeholder_header 16000 I2S_BITS_PER_SAMPLE_16BIT))"
    by (simp add: at_loop_head_state)
  show ?thesis
    by (simp add: after_refused_block a b stop1 stop2 c d file_content_def
        header_of_bytes_header_bytes_only finalized_header_fields length_header_bytes)
qed

subsection \<open>The two header writes\<close>

text \<open>
  Claim C4 says that the second header write repeats the first in every field but the two
  sizes. \<^verbatim>\<open>update_wav_header\<close> means to read the header back before it sets the sizes, but
  the stream was opened with mode \<^verbatim>\<open>"wb"\<close>: the \<^verbatim>\<open>fread\<close> fails and the struct keeps whatever
  the stack held. In this session the stack held zero bytes: the header in the finished
  file is the zeroed struct with the two sizes set, its RIFF tag is four zero bytes where
  the placeholder had \<^verbatim>\<open>RIFF\<close>, and its sample rate is 0 where the placeholder had 16000.
\<close>

theorem finalized_header_is_not_the_placeholder:
  "header_of_bytes
     (session_file sd_path (delivers []) [delivers [1, 2, 3, 4]] [delivers []] installed_recorder) =
     zeroed_header\<lparr>data_bytes := 4, wav_size := 40\<rparr> \<and>
   riff_header (header_of_bytes
     (session_file sd_path (delivers []) [delivers [1, 2, 3, 4]] [delivers []] installed_recorder)) =
     Char4 0 0 0 0 \<and>
   riff_header (placeholder_header 16000 I2S_BITS_PER_SAMPLE_16BIT) = Char4 82 73 70 70 \<and>
   sample_rate (header_of_bytes
     (session_file sd_path (delivers []) [delivers [1, 2, 3, 4]] [delivers []] installed_recorder)) = 0 \<and>
   sample_rate (placeholder_header 16000 I2S_BITS_PER_SAMPLE_16BIT) = 16000"
proof -
  note contents = session_file_result [OF installed_recorder_ready delivers_fields(1)
      sink_accepts_delivers_header sink_accepts_four sink_accepts_delivers_header,
      of "[]" "[]"]
  have t: "total_bytes [delivers [1, 2, 3, 4]] = 4"
    by (simp add: total_bytes_def blocks_read_four)
  show ?thesis
    by (simp add: contents t header_of_bytes_header_bytes finalized_header_def delivers_fields
        sizeof_WavHeader_def placeholder_16k_16bit zeroed_header_def)
qed

subsection \<open>Data size and payload\<close>

text \<open>
  Claim C5. Take a session whose file can be opened, whose buffer can be allocated, whose
  sink accepts every write, and whose task finishes its clean-up before \<^verbatim>\<open>StopRecording\<close>
  returns. Both calls return \<open>True\<close>. The data size field of the header in the file is the
  sum of the lengths of the blocks read, as a 32-bit value, and as an integer when the sum
  is below \<open>2^31\<close>. The bytes after the header are the blocks, concatenated in the order
  they were read.
\<close>

theorem data_size_is_sum_and_payload_is_concatenation:
  assumes "\<not> m_is_recording s0" and "path \<notin> unopenable s0"
    and "malloc_ok e0" and "sink_accepts e0 sizeof_WavHeader"
    and "\<forall>e\<in>set es. sink_accepts e (length (block_of e))"
    and "sink_accepts ef sizeof_WavHeader"
  shows "fst (session path e0 es [ef] s0) \<and> fst (snd (session path e0 es [ef] s0)) \<and>
         data_bytes (header_of_bytes (session_file path e0 es [ef] s0)) =
           of_nat (sum_list (map length (blocks_read es))) \<and>
         (sum_list (map length (blocks_read es)) < 2 ^ 31 \<longrightarrow>
            sint (data_bytes (header_of_bytes (session_file path e0 es [ef] s0))) =
              int (sum_list (map length (blocks_read es)))) \<and>
         drop sizeof_WavHeader (session_file path e0 es [ef] s0) = concat (blocks_read es)"
proof -
  note contents = session_file_result [OF assms]
  have "total_bytes es < 2 ^ 31 \<longrightarrow> sint (of_nat (total_bytes es) :: int32) = int (total_bytes es)"
    by (simp add: sint_of_nat32)
  then show ?thesis
    using session_result(1,2) [OF assms]
    by (simp add: contents header_of_bytes_header_bytes finalized_header_fields length_header_bytes
        total_bytes_def)
qed

text \<open>The six reads of 6000 bytes in all.\<close>

theorem data_size_and_payload_witness:
  "\<not> m_is_recording installed_recorder \<and> sd_path \<notin> unopenable installed_recorder \<and>
   malloc_ok (delivers []) \<and> sink_accepts (delivers []) sizeof_WavHeader \<and>
   list_all (\<lambda>e. sink_accepts e (length (block_of e))) scenario_reads \<and>
   sum_list (map length (blocks_read scenario_reads)) < 2 ^ 31 \<and>
   fst (session sd_path (delivers []) scenario_reads [delivers []] installed_recorder) \<and>
   fst (snd (session sd_path (delivers []) scenario_reads [delivers []] installed_recorder)) \<and>
   sint (data_bytes (header_of_bytes
     (session_file sd_path (delivers []) scenario_reads [delivers []] installed_recorder))) = 6000 \<and>
   drop sizeof_WavHeader
     (session_file sd_path (delivers []) scenario_reads [delivers []] installed_recorder) =
     replicate 6000 0"
proof -
  have total: "sum_list (map length (blocks_read scenario_reads)) = 6000"
    using total_bytes_scenario by (simp add: total_bytes_def)
  have payload: "concat (blocks_read scenario_reads) = replicate 6000 0"
    by (simp add: blocks_read_scenario replicate_add [symmetric])
  note r = data_size_is_sum_and_payload_is_concatenation [OF installed_recorder_ready
      delivers_fields(1) sink_accepts_delivers_header sink_accepts_scenario
      sink_accepts_delivers_header, of "[]" "[]", unfolded total payload]
  from r installed_recorder_ready delivers_fields(1) [of "[]"]
    sink_accepts_delivers_header [of "[]"] sink_accepts_scenario total
  show ?thesis by (simp add: list_all_iff)
qed

subsection \<open>Read failures\<close>

text \<open>
  Claim C6. In a running session, a block read that returns an error or a timeout leaves
  the task in the loop and changes nothing but the log, which gains one warning. The next
  pass of the loop runs as usual: the block of a following successful read is appended to
  the file and added to the byte counter.
\<close>

theorem read_failure_does_not_end_loop:
  assumes "capturing rate bits i path payload s" and "m_is_recording s"
    and "i2s_result e \<noteq> ESP_OK"
    and "i2s_result e' = ESP_OK" and "sink_accepts e' (length (block_of e'))"
  shows "run_task i e s = s\<lparr>esp_log := esp_log s @ [(LOGW, ''I2S read error or timeout'')]\<rparr> \<and>
         capturing rate bits i path (payload @ block_of e') (run_task i e' (run_task i e s)) \<and>
         m_is_recording (run_task i e' (run_task i e s))"
proof -
  have none: "block_of e = []"
    using assms(3) by (simp add: block_of_def)
  have first: "run_task i e s = s\<lparr>esp_log := esp_log s @ [(LOGW, ''I2S read error or timeout'')]\<rparr>"
    using assms(1,2) none
    by (simp add: run_task_def capturing_def task_iteration_no_block ESP_LOG_def list_update_same)
  have "sink_accepts e (length (block_of e))"
    by (simp add: none sink_accepts_def)
  then have still: "capturing rate bits i path payload (run_task i e s)" "m_is_recording (run_task i e s)"
    using iteration_capturing [OF assms(1,2), of e] by (simp_all add: none)
  from iteration_capturing [OF still assms(5)] first show ?thesis
    by simp
qed

text \<open>A time-out followed by a read of four bytes, right after the start.\<close>

theorem read_failure_witness:
  "capturing 16000 I2S_BITS_PER_SAMPLE_16BIT 0 sd_path [] at_loop_head \<and>
   m_is_recording at_loop_head \<and>
   i2s_result times_out \<noteq> ESP_OK \<and>
   i2s_result (delivers [1, 2, 3, 4]) = ESP_OK \<and>
   run_task 0 times_out at_loop_head =
     at_loop_head\<lparr>esp_log := esp_log at_loop_head @ [(LOGW, ''I2S read error or timeout'')]\<rparr> \<and>
   capturing 16000 I2S_BITS_PER_SAMPLE_16BIT 0 sd_path [1, 2, 3, 4]
     (run_task 0 (delivers [1, 2, 3, 4]) (run_task 0 times_out at_loop_head))"
proof -
  have t: "i2s_result times_out \<noteq> ESP_OK"
    by (simp add: times_out_def)
  have b: "block_of (delivers [1, 2, 3, 4]) = [1, 2, 3, 4]"
    by (simp add: block_of_delivers buffer_size_def)
  note r = read_failure_does_not_end_loop [OF at_loop_head_capturing t
      delivers_fields(2) [of "[1, 2, 3, 4]"] sink_accepts_delivers_block [of "[1, 2, 3, 4]"],
      unfolded b append_Nil]
  from r at_loop_head_capturing t delivers_fields(2) [of "[1, 2, 3, 4]"] show ?thesis
    by blast
qed

subsection \<open>Stopping before any block\<close>

text \<open>
  Claim C7. For every configuration, a session that is stopped before any block has been
  read (with the file opened, the buffer allocated, both header writes accepted and the
  clean-up finished before \<^verbatim>\<open>StopRecording\<close> returns) leaves a file of exactly
  \<^verbatim>\<open>sizeof(WavHeader)\<close> bytes, whose data size field is 0 and whose RIFF size field is
  \<^verbatim>\<open>sizeof(WavHeader) - 8\<close>. This holds when the task has reached its loop before the
  stop, with any number of reads that delivered nothing, and it holds when
  \<^verbatim>\<open>StopRecording\<close> is called straight after \<^verbatim>\<open>StartRecording\<close>, so that the task first runs
  with the flag already cleared.
\<close>

theorem stop_before_any_block_leaves_bare_header:
  assumes "\<not> m_is_recording s0" and "path \<notin> unopenable s0"
    and "malloc_ok e0" and "sink_accepts e0 sizeof_WavHeader"
    and "blocks_read es = []"
    and "sink_accepts ef sizeof_WavHeader"
  shows "fst (session path e0 es [ef] s0) \<and> fst (snd (session path e0 es [ef] s0)) \<and>
         length (session_file path e0 es [ef] s0) = sizeof_WavHeader \<and>
         sint (data_bytes (header_of_bytes (session_file path e0 es [ef] s0))) = 0 \<and>
         sint (wav_size (header_of_bytes (session_file path e0 es [ef] s0))) =
           int sizeof_WavHeader - 8 \<and>
         fst (stop_after_start path [e0, ef] s0) \<and>
         fst (snd (stop_after_start path [e0, ef] s0)) \<and>
         length (stop_after_start_file path [e0, ef] s0) = sizeof_WavHeader \<and>
         sint (data_bytes (header_of_bytes (stop_after_start_file path [e0, ef] s0))) = 0 \<and>
         sint (wav_size (header_of_bytes (stop_after_start_file path [e0, ef] s0))) =
           int sizeof_WavHeader - 8"
proof -
  note acc = no_blocks_sink_accepts [OF assms(5)]
  note contents = session_file_result [OF assms(1-4) acc assms(6)]
  note at_once = stop_after_start_result [OF assms(1-4) assms(6)]
  have "total_bytes es = 0"
    using assms(5) by (simp add: total_bytes_def)
  then show ?thesis
    using session_result(1,2) [OF assms(1-4) acc assms(6)] assms(5) at_once(1,2)
    by (simp add: contents at_once(3) header_of_bytes_header_bytes_only finalized_header_fields
        length_header_bytes sizeof_WavHeader_def)
qed

text \<open>
  A session whose only read timed out, and a stop straight after the start.
\<close>

theorem bare_header_witness:
  "\<not> m_is_recording installed_recorder \<and> sd_path \<notin> unopenable installed_recorder \<and>
   blocks_read [times_out] = [] \<and>
   fst (session sd_path (delivers []) [times_out] [delivers []] installed_recorder) \<and>
   fst (snd (session sd_path (delivers []) [times_out] [delivers []] installed_recorder)) \<and>
   length (session_file sd_path (delivers []) [times_out] [delivers []] installed_recorder) = 44 \<and>
   sint (data_bytes (header_of_bytes
     (session_file sd_path (delivers []) [times_out] [delivers []] installed_recorder))) = 0 \<and>
   sint (wav_size (header_of_bytes
     (session_file sd_path (delivers []) [times_out] [delivers []] installed_recorder))) = 36 \<and>
   fst (stop_after_start sd_path [delivers [], delivers []] installed_recorder) \<and>
   fst (snd (stop_after_start sd_path [delivers [], delivers []] installed_recorder)) \<and>
   length (stop_after_start_file sd_path [delivers [], delivers []] installed_recorder) = 44 \<and>
   sint (data_bytes (header_of_bytes
     (stop_after_start_file sd_path [delivers [], delivers []] installed_recorder))) = 0 \<and>
   sint (wav_size (header_of_bytes
     (stop_after_start_file sd_path [delivers [], delivers []] installed_recorder))) = 36"
proof -
  note r = stop_before_any_block_leaves_bare_header [OF installed_recorder_ready
      delivers_fields(1) sink_accepts_delivers_header blocks_read_times_out
      sink_accepts_delivers_header, of "[]" "[]"]
  from r installed_recorder_ready blocks_read_times_out show ?thesis
    by (simp add: sizeof_WavHeader_def)
qed

subsection \<open>Rejected calls\<close>

text \<open>
  Claim C8. \<^verbatim>\<open>StartRecording\<close> while the flag says recording, and \<^verbatim>\<open>StopRecording\<close> while
  it does not, return \<open>False\<close> at once. The state they return is the state they were given
  with one error line added to the log: the path, the flag, the counter, the file handle,
  the disk and the tasks are untouched, and no stream operation is performed.
\<close>

theorem rejected_calls_change_nothing:
  "(m_is_recording s \<longrightarrow>
      StartRecording path pdPASS s =
        (False, s\<lparr>esp_log := esp_log s @ [(LOGE, ''Recording is already in progress.'')]\<rparr>)) \<and>
   (\<not> m_is_recording s \<longrightarrow>
      StopRecording sched s =
        (False, s\<lparr>esp_log := esp_log s @ [(LOGE, ''Not currently recording.'')]\<rparr>))"
  by (simp add: StartRecording_def StopRecording_def ESP_LOG_def)

text \<open>
  Both rejections on concrete states: a second \<^verbatim>\<open>StartRecording\<close> on the started recorder,
  and \<^verbatim>\<open>StopRecording\<close> on the recorder that was never started.
\<close>

theorem rejected_calls_witness:
  "m_is_recording started_recorder \<and>
   StartRecording missing_path True started_recorder =
     (False, started_recorder
        \<lparr>esp_log := esp_log started_recorder @ [(LOGE, ''Recording is already in progress.'')]\<rparr>) \<and>
   \<not> m_is_recording installed_recorder \<and>
   StopRecording [] installed_recorder =
     (False, installed_recorder
        \<lparr>esp_log := esp_log installed_recorder @ [(LOGE, ''Not currently recording.'')]\<rparr>)"
  using rejected_calls_change_nothing [of started_recorder missing_path True "[]"]
    rejected_calls_change_nothing [of installed_recorder missing_path True "[]"]
    started_recorder_recording installed_recorder_fields(3)
  by simp

subsection \<open>Byte rate\<close>

text \<open>
  Claim C9 says that every written header carries the byte rate of the configuration, and
  that the 16000 Hz, 16-bit scenario of 6000 payload bytes ends with a file of
  \<^verbatim>\<open>sizeof(WavHeader)\<close> + 6000 bytes, data size 6000 and byte rate 32000. The length and the
  data size come out as claimed, and the placeholder header has byte rate 32000. The
  finalized header does not: its byte rate is what the stack held when \<^verbatim>\<open>fread\<close> failed on
  the write-only stream, here 0.
\<close>

theorem scenario_byte_rate_is_lost:
  "length (session_file sd_path (delivers []) scenario_reads [delivers []] installed_recorder) =
     sizeof_WavHeader + 6000 \<and>
   data_bytes (header_of_bytes
     (session_file sd_path (delivers []) scenario_reads [delivers []] installed_recorder)) = 6000 \<and>
   byte_rate (placeholder_header 16000 I2S_BITS_PER_SAMPLE_16BIT) = 32000 \<and>
   byte_rate (header_of_bytes
     (session_file sd_path (delivers []) scenario_reads [delivers []] installed_recorder)) = 0"
proof -
  note contents = session_file_result [OF installed_recorder_ready delivers_fields(1)
      sink_accepts_delivers_header sink_accepts_scenario sink_accepts_delivers_header,
      of "[]" "[]"]
  have len: "length (concat (blocks_read scenario_reads)) = 6000"
    by (simp add: total_bytes_concat total_bytes_scenario)
  show ?thesis
    by (simp add: contents total_bytes_scenario header_of_bytes_header_bytes finalized_header_def
        delivers_fields length_header_bytes len placeholder_16k_16bit zeroed_header_def)
qed

subsection \<open>The width of the size fields\<close>

text \<open>
  Claim C10 says that both size fields are exact for every payload below \<open>2^31\<close> bytes. The
  RIFF size is the payload plus 36, so it leaves the range of a signed 32-bit field 36
  bytes earlier: after \<open>2^31 - 1\<close> payload bytes it reads as a negative number.
\<close>

theorem long_recording_counterexample:
  "total_bytes long_recording = 2147483647 \<and>
   sint (wav_size (header_of_bytes
     (session_file sd_path (delivers []) long_recording [delivers []] installed_recorder))) =
     - 2147483613"
proof -
  note contents = session_file_result [OF installed_recorder_ready delivers_fields(1)
      sink_accepts_delivers_header sink_accepts_long sink_accepts_delivers_header,
      of "[]" "[]"]
  show ?thesis
    by (simp add: contents header_of_bytes_header_bytes finalized_header_fields total_bytes_long)
qed

text \<open>
  Claim C10, amended. In a session that runs to its end with every write accepted, the
  byte counter and the data size field, read as signed 32-bit integers, equal the number
  of payload bytes exactly when that number is below \<open>2^31\<close>; the RIFF size field equals
  the payload plus \<^verbatim>\<open>sizeof(WavHeader) - 8\<close> exactly when that sum is below \<open>2^31\<close>, that is
  when the payload is below \<open>2^31 - 36\<close> bytes.
\<close>

theorem size_fields_exact_iff_in_signed_range:
  assumes "\<not> m_is_recording s0" and "path \<notin> unopenable s0"
    and "malloc_ok e0" and "sink_accepts e0 sizeof_WavHeader"
    and "\<forall>e\<in>set es. sink_accepts e (length (block_of e))"
    and "sink_accepts ef sizeof_WavHeader"
  shows "(sint (m_data_bytes_written (snd (snd (session path e0 es [ef] s0)))) =
            int (total_bytes es) \<longleftrightarrow> total_bytes es < 2 ^ 31) \<and>
         (sint (data_bytes (header_of_bytes (session_file path e0 es [ef] s0))) =
            int (total_bytes es) \<longleftrightarrow> total_bytes es < 2 ^ 31) \<and>
         (sint (wav_size (header_of_bytes (session_file path e0 es [ef] s0))) =
            int (total_bytes es + sizeof_WavHeader - 8) \<longleftrightarrow>
          total_bytes es + sizeof_WavHeader - 8 < 2 ^ 31)"
proof -
  note contents = session_file_result [OF assms]
  have w: "(of_nat (total_bytes es) :: int32) + 36 = of_nat (total_bytes es + sizeof_WavHeader - 8)"
    by (simp add: sizeof_WavHeader_def)
  show ?thesis
    using session_result(7) [OF assms]
    by (simp add: contents header_of_bytes_header_bytes finalized_header_fields
        total_bytes_concat w sint_of_nat32_iff del: of_nat_add of_nat_diff)
qed

text \<open>The six reads of 6000 bytes in all: counter 6000, data size 6000, RIFF size 6036.\<close>

theorem size_fields_witness:
  "\<not> m_is_recording installed_recorder \<and> sd_path \<notin> unopenable installed_recorder \<and>
   list_all (\<lambda>e. sink_accepts e (length (block_of e))) scenario_reads \<and>
   total_bytes scenario_reads = 6000 \<and>
   sint (m_data_bytes_written (snd (snd
     (session sd_path (delivers []) scenario_reads [delivers []] installed_recorder)))) = 6000 \<and>
   sint (data_bytes (header_of_bytes
     (session_file sd_path (delivers []) scenario_reads [delivers []] installed_recorder))) = 6000 \<and>
   sint (wav_size (header_of_bytes
     (session_file sd_path (delivers []) scenario_reads [delivers []] installed_recorder))) = 6036"
proof -
  note r = size_fields_exact_iff_in_signed_range [OF installed_recorder_ready
      delivers_fields(1) sink_accepts_delivers_header sink_accepts_scenario
      sink_accepts_delivers_header, of "[]" "[]", unfolded total_bytes_scenario]
  from r installed_recorder_ready sink_accepts_scenario total_bytes_scenario show ?thesis
    by (simp add: sizeof_WavHeader_def list_all_iff)
qed

end
